theory Spec2Isabelle
  imports Main
begin

section \<open>The Nextcloud provider of the storage gateway\<close>

text \<open>
  A shallow embedding of \<^verbatim>\<open>waterbutler/providers/nextcloud/provider.py\<close>. The provider
  talks to a WebDAV server; the server and the parsers of its answers are outside the
  file, so they are parameters of the model (the record \<open>env\<close>), and every coroutine is
  a function from the state of the world to a result and a new state of the world.
\<close>

subsection \<open>Errors\<close>

text \<open>
  The exceptions the code raises, as values. \<open>ParserError\<close> stands for any exception of a
  response parser that the provider has no handler for; \<open>IndexError\<close> and \<open>TypeError\<close>
  are Python's own.
\<close>

datatype error =
    NotFoundError string
  | MetadataError nat
  | UploadError nat
  | DeleteError nat
  | CreateFolderError nat
  | IntraCopyError nat
  | FolderNamingConflict string
  | NamingConflict string
  | NotImplementedError string
  | ParserError string
  | IndexError
  | TypeError

fun is_not_found_error :: "error \<Rightarrow> bool" where
  "is_not_found_error (NotFoundError m) = True"
| "is_not_found_error e = False"

fun raises_not_found :: "(error + 'a) \<times> 's \<Rightarrow> bool" where
  "raises_not_found (Inl e, s) = is_not_found_error e"
| "raises_not_found (Inr x, s) = False"

subsection \<open>Paths\<close>

datatype kind = File | Folder

text \<open>
  Modelled from the spec: \<^verbatim>\<open>waterbutler.core.path.WaterButlerPath\<close> is not among the
  sources. A path is the ordered sequence of its named segments, each with an optional
  identifier, a folder flag for the last segment and the storage root it is prepended
  with. The constructor reads a \<^verbatim>\<open>/\<close>-delimited string; a trailing slash marks a folder,
  and a path with no segment is the root, which is a folder.
\<close>

record wb_path =
  prepend :: string
  parts :: "(string \<times> string option) list"
  is_folder :: bool

fun split_on :: "char \<Rightarrow> string \<Rightarrow> string list" where
  "split_on d [] = [[]]"
| "split_on d (c # cs) =
     (if c = d then [] # split_on d cs
      else (case split_on d cs of [] \<Rightarrow> [[c]] | s # ss \<Rightarrow> (c # s) # ss))"

definition segments :: "string \<Rightarrow> string list" where
  "segments p = filter (\<lambda>s. s \<noteq> []) (split_on CHR ''/'' p)"

definition endswith_slash :: "string \<Rightarrow> bool" where
  "endswith_slash p = (p \<noteq> [] \<and> last p = CHR ''/'')"

definition WaterButlerPath :: "string \<Rightarrow> string \<Rightarrow> wb_path" where
  "WaterButlerPath p pre =
     \<lparr>prepend = pre,
      parts = map (\<lambda>s. (s, None)) (segments p),
      is_folder = (endswith_slash p \<or> segments p = [])\<rparr>"

definition is_root :: "wb_path \<Rightarrow> bool" where
  "is_root p = (parts p = [])"

definition path_kind :: "wb_path \<Rightarrow> kind" where
  "path_kind p = (if is_folder p then Folder else File)"

definition path_name :: "wb_path \<Rightarrow> string" where
  "path_name p = (if parts p = [] then [] else fst (last (parts p)))"

definition path_identifier :: "wb_path \<Rightarrow> string option" where
  "path_identifier p = (if parts p = [] then None else snd (last (parts p)))"

fun join_with :: "string \<Rightarrow> string list \<Rightarrow> string" where
  "join_with d [] = []"
| "join_with d [s] = s"
| "join_with d (s # t # ss) = s @ d @ join_with d (t # ss)"

text \<open>The materialized path is the display path: names only, no identifier.\<close>

definition materialized_path :: "wb_path \<Rightarrow> string" where
  "materialized_path p =
     ''/'' @ join_with ''/'' (map fst (parts p)) @
     (if is_folder p \<and> parts p \<noteq> [] then ''/'' else [])"

definition full_path :: "wb_path \<Rightarrow> string" where
  "full_path p = prepend p @ tl (materialized_path p)"

text \<open>\<open>parent\<close> strips the last segment and forces the folder flag.\<close>

definition parent :: "wb_path \<Rightarrow> wb_path" where
  "parent p = p\<lparr>parts := butlast (parts p), is_folder := True\<rparr>"

text \<open>
  The statement \<^verbatim>\<open>path._parts[-1]._id = None\<close> of \<open>upload\<close>; indexing an empty list
  raises.
\<close>

definition clear_last_id :: "wb_path \<Rightarrow> error + wb_path" where
  "clear_last_id p =
     (if parts p = [] then Inl IndexError
      else Inr (p\<lparr>parts := butlast (parts p) @ [(fst (last (parts p)), None)]\<rparr>))"

text \<open>Python's truth value of \<^verbatim>\<open>path.identifier\<close>: neither \<open>None\<close> nor empty.\<close>

fun truthy :: "string option \<Rightarrow> bool" where
  "truthy None = False"
| "truthy (Some s) = (s \<noteq> [])"

subsection \<open>Metadata\<close>

text \<open>
  Modelled from the spec: the metadata classes of
  \<^verbatim>\<open>waterbutler.providers.nextcloud.metadata\<close> are not among the sources. The record
  has the attributes the provider reads or writes. \<open>metadata\<close> returns one entry for a
  file and a listing for a folder.
\<close>

datatype nc_metadata =
  Metadata (m_kind: kind) (m_path: string) (m_materialized_path: string) (m_href: string)
    (m_fileid: string) (m_extra: "(string \<times> (string \<times> string) list) list option")
    (m_children: "meta_result option")
and meta_result = Listing "nc_metadata list" | Single nc_metadata

fun set_extra ::
  "(string \<times> (string \<times> string) list) list \<Rightarrow> nc_metadata \<Rightarrow> nc_metadata" where
  "set_extra x (Metadata k p mp h i e c) = Metadata k p mp h i (Some x) c"

fun set_children :: "meta_result \<Rightarrow> nc_metadata \<Rightarrow> nc_metadata" where
  "set_children r (Metadata k p mp h i e c) = Metadata k p mp h i e (Some r)"

text \<open>Iterating over a metadata result, as a list comprehension does.\<close>

fun iterate :: "meta_result \<Rightarrow> error + nc_metadata list" where
  "iterate (Listing ms) = Inr ms"
| "iterate (Single m) = Inl TypeError"

text \<open>\<^verbatim>\<open>xs[0]\<close>: the first element, or \<open>IndexError\<close>.\<close>

fun first :: "'a list \<Rightarrow> error + 'a" where
  "first [] = Inl IndexError"
| "first (x # xs) = Inr x"

subsection \<open>The provider\<close>

record credentials =
  host :: string
  username :: string
  password :: string

record settings =
  folder_setting :: string
  verify_ssl_setting :: bool

record provider =
  NAME :: string
  creds :: credentials
  conf :: settings
  folder :: string
  verify_ssl :: bool
  url :: string

text \<open>The constructor \<^verbatim>\<open>__init__\<close>, for a provider class of the given name.\<close>

definition NextcloudProvider :: "string \<Rightarrow> credentials \<Rightarrow> settings \<Rightarrow> provider" where
  "NextcloudProvider nm c s =
     \<lparr>NAME = nm, creds = c, conf = s,
      folder = (if \<not> endswith_slash (folder_setting s) then folder_setting s @ ''/''
                else folder_setting s),
      verify_ssl = verify_ssl_setting s,
      url = host c\<rparr>"

text \<open>The URL properties read \<^verbatim>\<open>self.url[-1]\<close>, which raises on the empty string.\<close>

definition webdav_url :: "provider \<Rightarrow> error + string" where
  "webdav_url prov =
     (if url prov = [] then Inl IndexError
      else if last (url prov) \<noteq> CHR ''/'' then Inr (url prov @ ''/remote.php/webdav/'')
      else Inr (url prov @ ''remote.php/webdav/''))"

definition ocs_url :: "provider \<Rightarrow> error + string" where
  "ocs_url prov =
     (if url prov = [] then Inl IndexError
      else if last (url prov) \<noteq> CHR ''/'' then Inr (url prov @ ''/ocs/v2.php/'')
      else Inr (url prov @ ''ocs/v2.php/''))"

text \<open>
  Modelled from the spec: \<^verbatim>\<open>BaseProvider.shares_storage_root\<close> and
  \<^verbatim>\<open>BaseProvider.__eq__\<close> of \<^verbatim>\<open>waterbutler.core.provider\<close> are not among the sources.
  By the docstring of the override the parent method compares the settings, which only
  hold the root folder; by the spec two providers are the same when they are the same
  backend account.
\<close>

definition base_shares_storage_root :: "provider \<Rightarrow> provider \<Rightarrow> bool" where
  "base_shares_storage_root a b = (NAME a = NAME b \<and> conf a = conf b)"

definition provider_eq :: "provider \<Rightarrow> provider \<Rightarrow> bool" where
  "provider_eq a b = (NAME a = NAME b \<and> creds a = creds b)"

definition shares_storage_root :: "provider \<Rightarrow> provider \<Rightarrow> bool" where
  "shares_storage_root self other =
     (base_shares_storage_root self other \<and> creds self = creds other)"

definition can_intra_copy :: "provider \<Rightarrow> provider \<Rightarrow> bool" where
  "can_intra_copy self dest_provider = provider_eq self dest_provider"

definition can_intra_move :: "provider \<Rightarrow> provider \<Rightarrow> bool" where
  "can_intra_move self dest_provider = provider_eq self dest_provider"

text \<open>
  Modelled from the spec: the transfer orchestrator is not among the sources. By step 2
  of its algorithm a transfer is native only when the two providers share their storage
  root and the source declares the native operation available.
\<close>

datatype operation = COPY | MOVE

fun uses_intra :: "operation \<Rightarrow> provider \<Rightarrow> provider \<Rightarrow> bool" where
  "uses_intra COPY a b = (shares_storage_root a b \<and> can_intra_copy a b)"
| "uses_intra MOVE a b = (shares_storage_root a b \<and> can_intra_move a b)"

subsection \<open>The world: the server, the open responses\<close>

record request =
  meth :: string
  target :: string
  headers :: "(string \<times> string) list"
  params :: "(string \<times> string) list"
  payload :: "string option"

record response =
  rid :: nat
  status :: nat
  body :: string

text \<open>
  The state of the world: the requests sent so far, the number of responses handed to
  the provider, and the responses whose body was read and those that were released.
\<close>

record world =
  sent :: "request list"
  opened :: nat
  drained :: "nat list"
  released :: "nat list"

definition world0 :: world where
  "world0 = \<lparr>sent = [], opened = 0, drained = [], released = []\<rparr>"

definition unreleased :: "world \<Rightarrow> nat list" where
  "unreleased w = filter (\<lambda>i. i \<notin> set (released w)) [0..<opened w]"

text \<open>
  What the provider does not contain: the server, which answers a request with a status
  and a body and may depend on the requests before it, and the two parsers of
  \<^verbatim>\<open>waterbutler.providers.nextcloud.utils\<close>.
\<close>

record env =
  respond :: "request list \<Rightarrow> request \<Rightarrow> nat \<times> string"
  parse_dav_response :: "string \<Rightarrow> string \<Rightarrow> string \<Rightarrow> bool \<Rightarrow> error + nc_metadata list"
  parse_checksum_response :: "string \<Rightarrow> error + (string \<times> string) list"

type_synonym 'a action = "world \<Rightarrow> (error + 'a) \<times> world"

definition return_op :: "'a \<Rightarrow> 'a action" where
  "return_op x w = (Inr x, w)"

definition raise_op :: "error \<Rightarrow> 'a action" where
  "raise_op e w = (Inl e, w)"

definition lift_op :: "error + 'a \<Rightarrow> 'a action" where
  "lift_op r w = (r, w)"

definition bind_op :: "'a action \<Rightarrow> ('a \<Rightarrow> 'b action) \<Rightarrow> 'b action" where
  "bind_op m f w = (case m w of (Inl e, w') \<Rightarrow> (Inl e, w') | (Inr x, w') \<Rightarrow> f x w')"

text \<open>
  Modelled from the spec: \<^verbatim>\<open>BaseProvider.make_request\<close> is not among the sources. The
  request is sent; a status among the expected ones hands the open response to the
  caller, any other status is translated into the error of the operation, which carries
  the status, and no response reaches the caller.
\<close>

definition make_request ::
  "env \<Rightarrow> request \<Rightarrow> nat list \<Rightarrow> (nat \<Rightarrow> error) \<Rightarrow> response action" where
  "make_request e req expects throws w =
     (let (st, b) = respond e (sent w) req;
          w' = w\<lparr>sent := sent w @ [req]\<rparr>
      in if st \<in> set expects
         then (Inr \<lparr>rid = opened w', status = st, body = b\<rparr>, w'\<lparr>opened := Suc (opened w')\<rparr>)
         else (Inl (throws st), w'))"

text \<open>\<^verbatim>\<open>await response.content.read()\<close> and \<^verbatim>\<open>await response.release()\<close>.\<close>

definition read_content :: "response \<Rightarrow> string action" where
  "read_content r w = (Inr (body r), w\<lparr>drained := drained w @ [rid r]\<rparr>)"

definition release :: "response \<Rightarrow> unit action" where
  "release r w = (Inr (), w\<lparr>released := released w @ [rid r]\<rparr>)"

definition dav_request :: "string \<Rightarrow> string \<Rightarrow> request" where
  "dav_request m u = \<lparr>meth = m, target = u, headers = [], params = [], payload = None\<rparr>"

subsection \<open>Validating a path\<close>

definition validate_v1_path :: "env \<Rightarrow> provider \<Rightarrow> string \<Rightarrow> wb_path action" where
  "validate_v1_path e self path =
     (if path = ''/'' then return_op (WaterButlerPath path (folder self))
      else
        (let fp = WaterButlerPath path (folder self) in
         bind_op (lift_op (webdav_url self)) (\<lambda>base.
         bind_op (make_request e (dav_request ''PROPFIND'' (base @ full_path fp))
                    [200, 207, 404] MetadataError) (\<lambda>response.
         bind_op (read_content response) (\<lambda>content.
         bind_op (release response) (\<lambda>_.
           if status response = 404 then raise_op (NotFoundError (full_path fp))
           else
             (case parse_dav_response e (NAME self) content ''/'' False of
                Inl (NotFoundError m) \<Rightarrow> raise_op (NotFoundError (full_path fp))
              | Inl err \<Rightarrow> raise_op err
              | Inr item \<Rightarrow>
                  bind_op (lift_op (first item)) (\<lambda>it.
                    if path_kind fp \<noteq> m_kind it
                    then raise_op (NotFoundError (full_path fp))
                    else return_op fp))))))))"

definition validate_path :: "env \<Rightarrow> provider \<Rightarrow> string \<Rightarrow> wb_path action" where
  "validate_path e self path =
     (if path = ''/'' then return_op (WaterButlerPath path (folder self))
      else
        (let fp = WaterButlerPath path (folder self) in
         bind_op (lift_op (webdav_url self)) (\<lambda>base.
         bind_op (make_request e (dav_request ''PROPFIND'' (base @ full_path fp))
                    [200, 207, 404] MetadataError) (\<lambda>response.
         bind_op (read_content response) (\<lambda>content.
         bind_op (release response) (\<lambda>_.
           (case parse_dav_response e (NAME self) content ''/'' False of
              Inl (NotFoundError m) \<Rightarrow> return_op fp
            | Inl err \<Rightarrow> raise_op err
            | Inr item \<Rightarrow> return_op fp)))))))"

subsection \<open>Metadata of a file or a folder\<close>

text \<open>
  One round of the loop of \<open>_metadata_folder\<close>: for a file entry of the institutions
  flavour of the provider the checksums are fetched and stored in the entry.
\<close>

definition checksum_request :: "string \<Rightarrow> string \<Rightarrow> request" where
  "checksum_request ocs p =
     \<lparr>meth = ''GET'', target = ocs @ ''apps/checksum_api/api/checksum'',
      headers = [(''OCS-APIRequest'', ''true'')],
      params = [(''path'', p), (''hash'', ''md5,sha256,sha512'')],
      payload = None\<rparr>"

definition add_checksum :: "env \<Rightarrow> provider \<Rightarrow> nc_metadata \<Rightarrow> nc_metadata action" where
  "add_checksum e self i =
     (if m_kind i = File \<and> NAME self = ''nextcloudinstitutions'' then
        bind_op (lift_op (ocs_url self)) (\<lambda>ocs.
        bind_op (make_request e (checksum_request ocs (m_href i)) [200, 404] MetadataError)
          (\<lambda>response.
        bind_op (if status response = 200 then
                   bind_op (read_content response) (\<lambda>content.
                   bind_op (lift_op (parse_checksum_response e content)) (\<lambda>hashes.
                   return_op (set_extra [(''hashes'', hashes)] i)))
                 else return_op i) (\<lambda>i'.
        bind_op (release response) (\<lambda>_. return_op i'))))
      else return_op i)"

fun checksum_loop :: "env \<Rightarrow> provider \<Rightarrow> nc_metadata list \<Rightarrow> nc_metadata list action" where
  "checksum_loop e self [] w = (Inr [], w)"
| "checksum_loop e self (i # items) w =
     (case add_checksum e self i w of
        (Inl err, w') \<Rightarrow> (Inl err, w')
      | (Inr i', w') \<Rightarrow>
          (case checksum_loop e self items w' of
             (Inl err, w'') \<Rightarrow> (Inl err, w'')
           | (Inr items', w'') \<Rightarrow> (Inr (i' # items'), w'')))"

definition metadata_folder ::
  "env \<Rightarrow> provider \<Rightarrow> wb_path \<Rightarrow> bool \<Rightarrow> nc_metadata list action" where
  "metadata_folder e self path skip_first =
     bind_op (lift_op (webdav_url self)) (\<lambda>base.
     bind_op (make_request e (dav_request ''PROPFIND'' (base @ full_path path))
                [204, 207] MetadataError) (\<lambda>response.
     bind_op (if status response = 207 then
                bind_op (read_content response) (\<lambda>content.
                  lift_op (parse_dav_response e (NAME self) content (folder self) skip_first))
              else return_op []) (\<lambda>items.
     bind_op (release response) (\<lambda>_.
       checksum_loop e self items))))"

definition metadata_file :: "env \<Rightarrow> provider \<Rightarrow> wb_path \<Rightarrow> nc_metadata action" where
  "metadata_file e self path =
     bind_op (metadata_folder e self path False) (\<lambda>items. lift_op (first items))"

definition is_dir :: "wb_path \<Rightarrow> bool" where
  "is_dir p = is_folder p"

definition metadata :: "env \<Rightarrow> provider \<Rightarrow> wb_path \<Rightarrow> meta_result action" where
  "metadata e self path =
     (if is_dir path
      then bind_op (metadata_folder e self path True) (\<lambda>items. return_op (Listing items))
      else bind_op (metadata_file e self path) (\<lambda>item. return_op (Single item)))"

subsection \<open>Name conflicts\<close>

text \<open>Decimal digits of a number, for \<^verbatim>\<open>str\<close> and for the counter of a renamed entry.\<close>

definition digit :: "nat \<Rightarrow> char" where
  "digit d = char_of (48 + d)"

function show_nat :: "nat \<Rightarrow> string" where
  "show_nat n = (if n < 10 then [digit n] else show_nat (n div 10) @ [digit (n mod 10)])"
  by pat_completeness auto
termination
  by (relation "measure id") auto

definition str_int :: "int \<Rightarrow> string" where
  "str_int i = (if i < 0 then ''-'' @ show_nat (nat (- i)) else show_nat (nat i))"

text \<open>
  Modelled from the spec: \<^verbatim>\<open>BaseProvider.handle_name_conflict\<close> and the renaming of a
  path are not among the sources. Under \<^verbatim>\<open>keep\<close>, when an object exists at the name of
  the destination, the name gets a counter, \<^verbatim>\<open>b (1).txt\<close> for \<^verbatim>\<open>b.txt\<close>, the smallest
  one not in use among the children of the destination folder; \<^verbatim>\<open>replace\<close> proceeds;
  any other policy is a \<open>NamingConflict\<close>. The children are the listing of the parent
  folder, compared by materialized path.
\<close>

definition splitext :: "string \<Rightarrow> string \<times> string" where
  "splitext nm =
     (let ext = rev (takeWhile (\<lambda>c. c \<noteq> CHR ''.'') (rev nm));
          stem = take (length nm - length ext - 1) nm
      in if CHR ''.'' \<notin> set nm \<or> stem = [] then (nm, [])
         else (stem, drop (length stem) nm))"

definition increment_name :: "nat \<Rightarrow> string \<Rightarrow> string" where
  "increment_name k nm =
     (case splitext nm of (stem, ext) \<Rightarrow> stem @ '' ('' @ show_nat k @ '')'' @ ext)"

definition rename_path :: "nat \<Rightarrow> wb_path \<Rightarrow> wb_path" where
  "rename_path k p =
     (if parts p = [] then p
      else p\<lparr>parts := butlast (parts p) @
                 [(increment_name k (fst (last (parts p))), snd (last (parts p)))]\<rparr>)"

fun first_free :: "(nat \<Rightarrow> string) \<Rightarrow> string list \<Rightarrow> nat \<Rightarrow> nat \<Rightarrow> nat" where
  "first_free f names k 0 = k"
| "first_free f names k (Suc fuel) =
     (if f k \<in> set names then first_free f names (Suc k) fuel else k)"

definition free_counter :: "wb_path \<Rightarrow> string list \<Rightarrow> nat" where
  "free_counter p names =
     first_free (\<lambda>k. materialized_path (rename_path k p)) names 1 (length names)"

definition handle_name_conflict ::
  "env \<Rightarrow> provider \<Rightarrow> wb_path \<Rightarrow> string \<Rightarrow> (wb_path \<times> bool) action" where
  "handle_name_conflict e self path conflict =
     bind_op (metadata_folder e self (parent path) True) (\<lambda>children.
       (let names = map m_materialized_path children in
        if materialized_path path \<notin> set names then return_op (path, False)
        else if conflict = ''replace'' then return_op (path, True)
        else if conflict = ''keep''
          then return_op (rename_path (free_counter path names) path, False)
        else raise_op (NamingConflict (path_name path))))"

subsection \<open>Upload, delete, create folder\<close>

record stream =
  stream_size :: int
  stream_data :: string

text \<open>The first statement of \<open>upload\<close>: the path the request is sent for.\<close>

definition upload_target :: "env \<Rightarrow> provider \<Rightarrow> wb_path \<Rightarrow> string \<Rightarrow> wb_path action" where
  "upload_target e self path conflict =
     (if truthy (path_identifier path) \<and> conflict = ''keep'' then
        bind_op (handle_name_conflict e self path conflict) (\<lambda>(p, _).
          lift_op (clear_last_id p))
      else return_op path)"

definition put_request :: "string \<Rightarrow> wb_path \<Rightarrow> stream \<Rightarrow> request" where
  "put_request base path s =
     \<lparr>meth = ''PUT'', target = base @ full_path path,
      headers = [(''Content-Length'', str_int (stream_size s))],
      params = [], payload = Some (stream_data s)\<rparr>"

definition upload ::
  "env \<Rightarrow> provider \<Rightarrow> stream \<Rightarrow> wb_path \<Rightarrow> string \<Rightarrow> (meta_result \<times> bool) action" where
  "upload e self s path conflict =
     bind_op (upload_target e self path conflict) (\<lambda>path.
     bind_op (lift_op (webdav_url self)) (\<lambda>base.
     bind_op (make_request e (put_request base path s) [201, 204] UploadError) (\<lambda>response.
     bind_op (release response) (\<lambda>_.
     bind_op (metadata e self path) (\<lambda>meta.
       return_op (meta, status response = 201))))))"

definition delete :: "env \<Rightarrow> provider \<Rightarrow> wb_path \<Rightarrow> unit action" where
  "delete e self path =
     bind_op (lift_op (webdav_url self)) (\<lambda>base.
     bind_op (make_request e (dav_request ''DELETE'' (base @ full_path path))
                [204] DeleteError) (\<lambda>delete_resp.
       release delete_resp))"

definition create_folder :: "env \<Rightarrow> provider \<Rightarrow> wb_path \<Rightarrow> nc_metadata action" where
  "create_folder e self path =
     bind_op (lift_op (webdav_url self)) (\<lambda>base.
     bind_op (make_request e (dav_request ''MKCOL'' (base @ full_path path))
                [201, 405] CreateFolderError) (\<lambda>resp.
     bind_op (release resp) (\<lambda>_.
       if status resp = 405 then raise_op (FolderNamingConflict (path_name path))
       else
         bind_op (metadata e self (parent path)) (\<lambda>meta.
         bind_op (lift_op (iterate meta)) (\<lambda>ms.
           lift_op (first (filter (\<lambda>m. m_path m = materialized_path path) ms)))))))"

subsection \<open>Copy and move inside one account\<close>

definition move_copy_request :: "string \<Rightarrow> string \<Rightarrow> wb_path \<Rightarrow> wb_path \<Rightarrow> request" where
  "move_copy_request operation base src_path dest_path =
     \<lparr>meth = operation, target = base @ full_path src_path,
      headers = [(''Destination'', ''/remote.php/webdav'' @ full_path dest_path)],
      params = [], payload = None\<rparr>"

definition do_dav_move_copy ::
  "env \<Rightarrow> provider \<Rightarrow> wb_path \<Rightarrow> wb_path \<Rightarrow> string \<Rightarrow> (meta_result \<times> bool) action" where
  "do_dav_move_copy e self src_path dest_path operation =
     (if operation \<noteq> ''MOVE'' \<and> operation \<noteq> ''COPY''
      then raise_op (NotImplementedError
             ''Nextcloud move/copy only supports MOVE and COPY endpoints'')
      else
        bind_op (lift_op (webdav_url self)) (\<lambda>base.
        bind_op (make_request e (move_copy_request operation base src_path dest_path)
                   [201, 204] IntraCopyError) (\<lambda>resp.
        bind_op (release resp) (\<lambda>_.
        bind_op (metadata e self dest_path) (\<lambda>file_meta.
        bind_op (if is_folder dest_path then
                   bind_op (metadata e self (parent dest_path)) (\<lambda>parent_meta.
                   bind_op (lift_op (iterate parent_meta)) (\<lambda>ms.
                   bind_op (lift_op (first (filter
                              (\<lambda>m. m_materialized_path m = materialized_path dest_path) ms)))
                     (\<lambda>meta.
                   return_op (Single (set_children file_meta meta)))))
                 else return_op file_meta) (\<lambda>meta.
          return_op (meta, status resp = 201)))))))"

definition intra_copy ::
  "env \<Rightarrow> provider \<Rightarrow> provider \<Rightarrow> wb_path \<Rightarrow> wb_path \<Rightarrow> (meta_result \<times> bool) action" where
  "intra_copy e self dest_provider src_path dest_path =
     do_dav_move_copy e self src_path dest_path ''COPY''"

definition intra_move ::
  "env \<Rightarrow> provider \<Rightarrow> provider \<Rightarrow> wb_path \<Rightarrow> wb_path \<Rightarrow> (meta_result \<times> bool) action" where
  "intra_move e self dest_provider src_path dest_path =
     do_dav_move_copy e self src_path dest_path ''MOVE''"

subsection \<open>What the server knows of a path\<close>

text \<open>
  The specification speaks of a path that exists on the backend, that is absent from it,
  or whose kind disagrees with the trailing slash of the string. These are read off the answer of
  the server to the \<^verbatim>\<open>PROPFIND\<close> request for the path: \<open>404\<close>, or a body in which the
  parser finds nothing, is absence; a first entry in the body is the object the path
  resolves to.
\<close>

definition propfind_answer :: "env \<Rightarrow> provider \<Rightarrow> string \<Rightarrow> world \<Rightarrow> (nat \<times> string) option" where
  "propfind_answer e self path w =
     (case webdav_url self of
        Inl err \<Rightarrow> None
      | Inr base \<Rightarrow>
          Some (respond e (sent w)
                  (dav_request ''PROPFIND''
                     (base @ full_path (WaterButlerPath path (folder self))))))"

definition resolved_object :: "env \<Rightarrow> provider \<Rightarrow> string \<Rightarrow> world \<Rightarrow> nc_metadata option" where
  "resolved_object e self path w =
     (case propfind_answer e self path w of
        None \<Rightarrow> None
      | Some (st, b) \<Rightarrow>
          (if st \<in> set [200, 207] then
             (case parse_dav_response e (NAME self) b ''/'' False of
                Inr (it # items) \<Rightarrow> Some it
              | _ \<Rightarrow> None)
           else None))"

definition absent_on_backend :: "env \<Rightarrow> provider \<Rightarrow> string \<Rightarrow> world \<Rightarrow> bool" where
  "absent_on_backend e self path w =
     (case propfind_answer e self path w of
        None \<Rightarrow> False
      | Some (st, b) \<Rightarrow>
          st = 404 \<or>
          (st \<in> set [200, 207] \<and>
           (case parse_dav_response e (NAME self) b ''/'' False of
              Inl err \<Rightarrow> is_not_found_error err
            | Inr items \<Rightarrow> False)))"

definition kind_disagrees :: "env \<Rightarrow> provider \<Rightarrow> string \<Rightarrow> world \<Rightarrow> bool" where
  "kind_disagrees e self path w =
     (case resolved_object e self path w of
        None \<Rightarrow> False
      | Some it \<Rightarrow> m_kind it \<noteq> path_kind (WaterButlerPath path (folder self)))"

definition kind_agrees :: "env \<Rightarrow> provider \<Rightarrow> string \<Rightarrow> world \<Rightarrow> bool" where
  "kind_agrees e self path w =
     (case resolved_object e self path w of
        None \<Rightarrow> False
      | Some it \<Rightarrow> m_kind it = path_kind (WaterButlerPath path (folder self)))"

text \<open>
  The body of the answer is one the parser reads or rejects with \<open>NotFoundError\<close>, the
  one exception of the parser the provider handles.
\<close>

definition body_readable :: "env \<Rightarrow> provider \<Rightarrow> string \<Rightarrow> world \<Rightarrow> bool" where
  "body_readable e self path w =
     (case propfind_answer e self path w of
        None \<Rightarrow> False
      | Some (st, b) \<Rightarrow>
          (case parse_dav_response e (NAME self) b ''/'' False of
             Inl err \<Rightarrow> is_not_found_error err
           | Inr items \<Rightarrow> True))"

subsection \<open>A small server to run the provider against\<close>

text \<open>
  A server for the examples. It holds a set of objects named by their path below the
  WebDAV root, a folder with a trailing slash. \<^verbatim>\<open>PUT\<close> and \<^verbatim>\<open>MKCOL\<close> add an object,
  \<^verbatim>\<open>DELETE\<close> removes one, \<^verbatim>\<open>COPY\<close> and \<^verbatim>\<open>MOVE\<close> add the destination; \<open>201\<close> is the
  answer when the object is new and \<open>204\<close> when it was there. \<^verbatim>\<open>PROPFIND\<close> answers \<open>207\<close>
  with the object and what lies below it, one name after the other, or \<open>404\<close>.
\<close>

definition demo_prefix :: string where
  "demo_prefix = ''h/remote.php/webdav/''"

definition demo_name :: "string \<Rightarrow> string" where
  "demo_name u = drop (length demo_prefix) u"

definition demo_destination :: "request \<Rightarrow> string" where
  "demo_destination r =
     (case map_of (headers r) ''Destination'' of
        None \<Rightarrow> []
      | Some d \<Rightarrow> drop (length ''/remote.php/webdav'') d)"

definition demo_find :: "string list \<Rightarrow> string \<Rightarrow> string option" where
  "demo_find objs n =
     (if n \<in> set objs then Some n
      else if n @ ''/'' \<in> set objs then Some (n @ ''/'')
      else None)"

definition demo_step :: "string list \<Rightarrow> request \<Rightarrow> string list" where
  "demo_step objs r =
     (if meth r = ''PUT'' \<or> meth r = ''MKCOL'' then List.insert (demo_name (target r)) objs
      else if meth r = ''COPY'' \<or> meth r = ''MOVE'' then List.insert (demo_destination r) objs
      else if meth r = ''DELETE'' then removeAll (demo_name (target r)) objs
      else objs)"

definition demo_respond :: "string list \<Rightarrow> request list \<Rightarrow> request \<Rightarrow> nat \<times> string" where
  "demo_respond initial history r =
     (let objs = foldl demo_step initial history in
      if meth r = ''PROPFIND'' then
        (case demo_find objs (demo_name (target r)) of
           None \<Rightarrow> (404, [])
         | Some n \<Rightarrow>
             (207, join_with '';''
                     (n # filter (\<lambda>q. q \<noteq> n \<and> take (length n) q = n \<and> endswith_slash n) objs)))
      else if meth r = ''PUT'' then
        (if demo_name (target r) \<in> set objs then (204, []) else (201, []))
      else if meth r = ''COPY'' \<or> meth r = ''MOVE'' then
        (if demo_destination r \<in> set objs then (204, []) else (201, []))
      else if meth r = ''MKCOL'' then
        (if demo_name (target r) \<in> set objs then (405, []) else (201, []))
      else if meth r = ''DELETE'' then
        (if demo_name (target r) \<in> set objs then (204, []) else (404, []))
      else (400, []))"

text \<open>
  A parser for the bodies of this server: one entry for each name, a folder when the name
  ends with a slash; an empty body has nothing to find.
\<close>

definition demo_entry :: "string \<Rightarrow> nc_metadata" where
  "demo_entry n =
     Metadata (if endswith_slash n then Folder else File) n n n [] None None"

definition demo_parse :: "string \<Rightarrow> string \<Rightarrow> string \<Rightarrow> bool \<Rightarrow> error + nc_metadata list" where
  "demo_parse nm content fld skip_first =
     (if content = [] then Inl (NotFoundError ''Not Found'')
      else Inr (drop (if skip_first then 1 else 0) (map demo_entry (split_on CHR '';'' content))))"

definition demo_env :: "string list \<Rightarrow> env" where
  "demo_env initial =
     \<lparr>respond = demo_respond initial,
      parse_dav_response = demo_parse,
      parse_checksum_response = (\<lambda>c. Inr [(''md5'', c)])\<rparr>"

text \<open>A server that gives one answer to every request.\<close>

definition fixed_env :: "nat \<Rightarrow> string \<Rightarrow> env" where
  "fixed_env st b =
     \<lparr>respond = (\<lambda>history r. (st, b)),
      parse_dav_response = demo_parse,
      parse_checksum_response = (\<lambda>c. Inr [(''md5'', c)])\<rparr>"

definition demo_provider :: provider where
  "demo_provider =
     NextcloudProvider ''nextcloud''
       \<lparr>host = ''h'', username = ''u'', password = ''p''\<rparr>
       \<lparr>folder_setting = ''/'', verify_ssl_setting = True\<rparr>"

definition other_provider :: provider where
  "other_provider =
     NextcloudProvider ''nextcloud''
       \<lparr>host = ''h'', username = ''v'', password = ''q''\<rparr>
       \<lparr>folder_setting = ''/'', verify_ssl_setting = True\<rparr>"

text \<open>The objects the server of the examples starts with.\<close>

definition demo_objects :: "string list" where
  "demo_objects = [''/'', ''/docs/'', ''/docs/a.txt'', ''/docs/a (1).txt'', ''/b.txt'']"


definition demo_stream :: stream where
  "demo_stream = \<lparr>stream_size = 10, stream_data = ''0123456789''\<rparr>"



section \<open>Properties\<close>

subsection \<open>Running an action\<close>

lemma bind_op_Inr_iff:
  "bind_op m f w = (Inr y, w') \<longleftrightarrow> (\<exists>x w1. m w = (Inr x, w1) \<and> f x w1 = (Inr y, w'))"
  by (auto simp: bind_op_def split: prod.splits sum.splits)


lemma bind_op_Inl: "m w = (Inl err, w1) \<Longrightarrow> bind_op m f w = (Inl err, w1)"
  by (simp add: bind_op_def)

subsection \<open>Validation\<close>

text \<open>
  C8. For the path string \<^verbatim>\<open>/\<close> both \<open>validate_v1_path\<close> and \<open>validate_path\<close> return the
  root path, which has no segment and is a folder, and the world is unchanged: no
  request is sent to the server.
\<close>

theorem root_path_needs_no_request:
  "validate_v1_path e self ''/'' w = (Inr (WaterButlerPath ''/'' (folder self)), w)
   \<and> validate_path e self ''/'' w = (Inr (WaterButlerPath ''/'' (folder self)), w)
   \<and> is_root (WaterButlerPath ''/'' (folder self))
   \<and> is_folder (WaterButlerPath ''/'' (folder self))
   \<and> path_kind (WaterButlerPath ''/'' (folder self)) = Folder"
  by (simp add: validate_v1_path_def validate_path_def return_op_def WaterButlerPath_def
      is_root_def path_kind_def segments_def endswith_slash_def)

text \<open>
  C4, as stated: \<open>validate_v1_path\<close> raises \<open>NotFoundError\<close> exactly when the path does not
  exist on the backend or the kind of the object disagrees with the trailing slash. This
  fails at the root: on a server that answers \<open>404\<close> to every request, also to the one
  for the folder of the provider, \<open>validate_v1_path\<close> returns the root path for \<^verbatim>\<open>/\<close>.
\<close>

theorem root_of_missing_folder_counterexample:
  "\<not> (raises_not_found (validate_v1_path (fixed_env 404 []) demo_provider ''/'' world0) \<longleftrightarrow>
        absent_on_backend (fixed_env 404 []) demo_provider ''/'' world0
        \<or> kind_disagrees (fixed_env 404 []) demo_provider ''/'' world0)"
  by code_simp

text \<open>
  C4, amended: for every path string other than \<^verbatim>\<open>/\<close>, \<open>validate_v1_path\<close> raises
  \<open>NotFoundError\<close> exactly when the server reports the path absent or the kind of the
  object it resolves to disagrees with the trailing slash of the string; for \<^verbatim>\<open>/\<close> it
  never raises.
\<close>

theorem validate_v1_path_not_found_iff:
  "raises_not_found (validate_v1_path e self path w) \<longleftrightarrow>
     path \<noteq> ''/'' \<and> (absent_on_backend e self path w \<or> kind_disagrees e self path w)"
proof (cases "path = ''/''")
  case True
  then show ?thesis by (simp add: validate_v1_path_def return_op_def)
next
  case False
  show ?thesis
  proof (cases "webdav_url self")
    case (Inl err)
    then show ?thesis using False
      by (simp add: validate_v1_path_def bind_op_def lift_op_def absent_on_backend_def
          kind_disagrees_def resolved_object_def propfind_answer_def Let_def)
         (auto simp: webdav_url_def split: if_splits)
  next
    case (Inr base)
    obtain st b where r: "respond e (sent w)
        (dav_request ''PROPFIND'' (base @ full_path (WaterButlerPath path (folder self)))) = (st, b)"
      by (cases "respond e (sent w)
        (dav_request ''PROPFIND'' (base @ full_path (WaterButlerPath path (folder self))))")
    show ?thesis using False Inr r
      by (auto simp: validate_v1_path_def bind_op_def lift_op_def absent_on_backend_def
          kind_disagrees_def resolved_object_def propfind_answer_def Let_def make_request_def
          read_content_def release_def raise_op_def return_op_def
          split: sum.splits list.splits error.splits)
  qed
qed

theorem validate_v1_path_not_found_iff_witness:
  "absent_on_backend (demo_env demo_objects) demo_provider ''/c.txt'' world0
   \<and> raises_not_found (validate_v1_path (demo_env demo_objects) demo_provider ''/c.txt'' world0)
   \<and> kind_disagrees (demo_env demo_objects) demo_provider ''/docs'' world0
   \<and> raises_not_found (validate_v1_path (demo_env demo_objects) demo_provider ''/docs'' world0)
   \<and> \<not> raises_not_found (validate_v1_path (demo_env demo_objects) demo_provider ''/b.txt'' world0)"
proof -
  have a: "absent_on_backend (demo_env demo_objects) demo_provider ''/c.txt'' world0"
    by code_simp
  have d: "kind_disagrees (demo_env demo_objects) demo_provider ''/docs'' world0"
    by code_simp
  have n: "\<not> absent_on_backend (demo_env demo_objects) demo_provider ''/b.txt'' world0"
          "\<not> kind_disagrees (demo_env demo_objects) demo_provider ''/b.txt'' world0"
    by code_simp+
  show ?thesis
    using a d n
      validate_v1_path_not_found_iff [of "demo_env demo_objects" demo_provider "''/c.txt''" world0]
      validate_v1_path_not_found_iff [of "demo_env demo_objects" demo_provider "''/docs''" world0]
      validate_v1_path_not_found_iff [of "demo_env demo_objects" demo_provider "''/b.txt''" world0]
    by simp
qed

text \<open>
  C1, as stated: for every path string that resolves to an existing object both
  operations return an equal path, and they differ only in raising on absence. This
  fails where the object exists and its kind disagrees with the string: \<^verbatim>\<open>/docs\<close>
  resolves to the folder \<^verbatim>\<open>/docs/\<close> of the server, \<open>validate_v1_path\<close> raises
  \<open>NotFoundError\<close> and \<open>validate_path\<close> returns the path of a file.
\<close>

theorem existing_folder_without_slash_counterexample:
  "resolved_object (demo_env demo_objects) demo_provider ''/docs'' world0
     = Some (demo_entry ''/docs/'')
   \<and> raises_not_found (validate_v1_path (demo_env demo_objects) demo_provider ''/docs'' world0)
   \<and> fst (validate_path (demo_env demo_objects) demo_provider ''/docs'' world0)
     = Inr (WaterButlerPath ''/docs'' ''/'')"
  by code_simp

text \<open>
  C1, amended. For the root, and for every path string that resolves to an object whose
  kind agrees with the trailing slash of the string, \<open>validate_v1_path\<close> and
  \<open>validate_path\<close> return the same path (and leave the same world). For every other
  path string that the server reports absent, \<open>validate_v1_path\<close> raises
  \<open>NotFoundError\<close> and \<open>validate_path\<close> returns the path built from the string, provided
  the parser reads the body of the answer or rejects it with \<open>NotFoundError\<close>. For
  every path string that resolves to an object of the other kind, \<open>validate_v1_path\<close>
  raises \<open>NotFoundError\<close> and \<open>validate_path\<close> returns the path built from the string.
\<close>

theorem validate_agreement:
  "(path = ''/'' \<or> kind_agrees e self path w \<longrightarrow>
      validate_v1_path e self path w =
        (Inr (WaterButlerPath path (folder self)), snd (validate_v1_path e self path w))
      \<and> validate_path e self path w = validate_v1_path e self path w)
   \<and> (path \<noteq> ''/'' \<and> absent_on_backend e self path w \<and> body_readable e self path w \<longrightarrow>
        raises_not_found (validate_v1_path e self path w)
        \<and> fst (validate_path e self path w) = Inr (WaterButlerPath path (folder self)))
   \<and> (path \<noteq> ''/'' \<and> kind_disagrees e self path w \<longrightarrow>
        raises_not_found (validate_v1_path e self path w)
        \<and> fst (validate_path e self path w) = Inr (WaterButlerPath path (folder self)))"
proof (cases "path = ''/''")
  case True
  then show ?thesis by (simp add: validate_v1_path_def validate_path_def return_op_def)
next
  case False
  show ?thesis
  proof (cases "webdav_url self")
    case (Inl err)
    then show ?thesis using False
      by (simp add: absent_on_backend_def kind_agrees_def
          kind_disagrees_def resolved_object_def propfind_answer_def)
  next
    case (Inr base)
    obtain st b where r: "respond e (sent w)
        (dav_request ''PROPFIND'' (base @ full_path (WaterButlerPath path (folder self)))) = (st, b)"
      by (cases "respond e (sent w)
        (dav_request ''PROPFIND'' (base @ full_path (WaterButlerPath path (folder self))))")
    show ?thesis using False Inr r
      by (auto simp: validate_v1_path_def validate_path_def bind_op_def lift_op_def
          absent_on_backend_def body_readable_def kind_agrees_def
          kind_disagrees_def resolved_object_def propfind_answer_def Let_def make_request_def
          read_content_def release_def raise_op_def return_op_def
          split: sum.splits list.splits error.splits)
  qed
qed

theorem validate_agreement_witness:
  "kind_agrees (demo_env demo_objects) demo_provider ''/docs/a.txt'' world0
   \<and> fst (validate_v1_path (demo_env demo_objects) demo_provider ''/docs/a.txt'' world0)
       = Inr (WaterButlerPath ''/docs/a.txt'' ''/'')
   \<and> validate_path (demo_env demo_objects) demo_provider ''/docs/a.txt'' world0
       = validate_v1_path (demo_env demo_objects) demo_provider ''/docs/a.txt'' world0
   \<and> absent_on_backend (demo_env demo_objects) demo_provider ''/c.txt'' world0
   \<and> body_readable (demo_env demo_objects) demo_provider ''/c.txt'' world0
   \<and> raises_not_found (validate_v1_path (demo_env demo_objects) demo_provider ''/c.txt'' world0)
   \<and> fst (validate_path (demo_env demo_objects) demo_provider ''/c.txt'' world0)
       = Inr (WaterButlerPath ''/c.txt'' ''/'')
   \<and> kind_disagrees (demo_env demo_objects) demo_provider ''/docs'' world0
   \<and> raises_not_found (validate_v1_path (demo_env demo_objects) demo_provider ''/docs'' world0)
   \<and> fst (validate_path (demo_env demo_objects) demo_provider ''/docs'' world0)
       = Inr (WaterButlerPath ''/docs'' ''/'')"
proof -
  have f: "folder demo_provider = ''/''"
    by code_simp
  have a: "kind_agrees (demo_env demo_objects) demo_provider ''/docs/a.txt'' world0"
    by code_simp
  have b: "absent_on_backend (demo_env demo_objects) demo_provider ''/c.txt'' world0"
          "body_readable (demo_env demo_objects) demo_provider ''/c.txt'' world0"
    by code_simp+
  have c: "kind_disagrees (demo_env demo_objects) demo_provider ''/docs'' world0"
    by code_simp
  have n: "''/c.txt'' \<noteq> ''/''" "''/docs'' \<noteq> ''/''"
    by simp_all
  from a validate_agreement [of "''/docs/a.txt''" "demo_env demo_objects" demo_provider world0]
  have 1: "fst (validate_v1_path (demo_env demo_objects) demo_provider ''/docs/a.txt'' world0)
             = Inr (WaterButlerPath ''/docs/a.txt'' ''/'')"
          "validate_path (demo_env demo_objects) demo_provider ''/docs/a.txt'' world0
             = validate_v1_path (demo_env demo_objects) demo_provider ''/docs/a.txt'' world0"
    by (metis f fst_conv)+
  from b n validate_agreement [of "''/c.txt''" "demo_env demo_objects" demo_provider world0]
  have 2: "raises_not_found (validate_v1_path (demo_env demo_objects) demo_provider ''/c.txt'' world0)"
          "fst (validate_path (demo_env demo_objects) demo_provider ''/c.txt'' world0)
             = Inr (WaterButlerPath ''/c.txt'' ''/'')"
    by (simp_all add: f)
  from c n validate_agreement [of "''/docs''" "demo_env demo_objects" demo_provider world0]
  have 3: "raises_not_found (validate_v1_path (demo_env demo_objects) demo_provider ''/docs'' world0)"
          "fst (validate_path (demo_env demo_objects) demo_provider ''/docs'' world0)
             = Inr (WaterButlerPath ''/docs'' ''/'')"
    by (simp_all add: f)
  from a b c 1 2 3 show ?thesis by simp
qed

subsection \<open>Releasing responses\<close>

text \<open>
  The validation of a path and \<open>delete\<close> release the response they open on every way
  out: they leave unreleased what was unreleased before.
\<close>

lemma unreleased_after_release:
  "unreleased (w\<lparr>sent := s, opened := Suc (opened w), drained := d,
               released := released w @ [opened w]\<rparr>) = unreleased w"
  by (simp add: unreleased_def) (rule filter_cong, auto)

lemma unreleased_sent: "unreleased (w\<lparr>sent := s\<rparr>) = unreleased w"
  by (simp add: unreleased_def)

lemma validate_releases_every_response:
  "unreleased (snd (validate_v1_path e self path w)) = unreleased w"
  "unreleased (snd (validate_path e self path w)) = unreleased w"
  "unreleased (snd (delete e self p w)) = unreleased w"
proof -
  have a: "unreleased (w\<lparr>sent := s, opened := Suc (opened w),
               released := released w @ [opened w]\<rparr>) = unreleased w" for s
    by (simp add: unreleased_def) (rule filter_cong, auto)
  show "unreleased (snd (validate_v1_path e self path w)) = unreleased w"
    by (cases "webdav_url self")
       (auto simp: validate_v1_path_def bind_op_def lift_op_def make_request_def Let_def
          read_content_def release_def raise_op_def return_op_def unreleased_after_release
          unreleased_sent
          split: prod.splits sum.splits list.splits error.splits)
  show "unreleased (snd (validate_path e self path w)) = unreleased w"
    by (cases "webdav_url self")
       (auto simp: validate_path_def bind_op_def lift_op_def make_request_def Let_def
          read_content_def release_def raise_op_def return_op_def unreleased_after_release
          unreleased_sent
          split: prod.splits sum.splits list.splits error.splits)
  show "unreleased (snd (delete e self p w)) = unreleased w"
    by (cases "webdav_url self")
       (auto simp: delete_def bind_op_def lift_op_def make_request_def Let_def
          release_def a unreleased_sent
          split: prod.splits sum.splits)
qed

text \<open>
  When the parser rejects the body of a \<open>207\<close> answer, \<open>_metadata_folder\<close> raises before
  it reaches \<^verbatim>\<open>response.release()\<close>: the response was opened and read, and is not among
  the released ones.
\<close>

lemma metadata_folder_parse_failure:
  assumes "webdav_url self = Inr base"
    and "respond e (sent w) (dav_request ''PROPFIND'' (base @ full_path path)) = (207, b)"
    and "parse_dav_response e (NAME self) b (folder self) skip_first = Inl err"
  shows "metadata_folder e self path skip_first w =
           (Inl err, w\<lparr>sent := sent w @ [dav_request ''PROPFIND'' (base @ full_path path)],
                       opened := Suc (opened w),
                       drained := drained w @ [opened w]\<rparr>)"
  using assms
  by (simp add: metadata_folder_def bind_op_def lift_op_def make_request_def read_content_def)

text \<open>
  C2 fails on the code. The metadata of the folder \<^verbatim>\<open>/docs/\<close>, on a server that answers
  \<open>207\<close> with a body the parser rejects with \<open>NotFoundError\<close>: the error leaves
  \<open>metadata\<close> and the response number 0 is still unreleased. \<open>validate_v1_path\<close>, which
  releases before it parses, leaves no response behind on the same answer.
\<close>

theorem metadata_parse_failure_leaves_response_unreleased:
  "metadata (fixed_env 207 []) demo_provider (WaterButlerPath ''/docs/'' ''/'') world0 =
     (Inl (NotFoundError ''Not Found''),
      \<lparr>sent = [dav_request ''PROPFIND'' ''h/remote.php/webdav//docs/''],
       opened = 1, drained = [0], released = []\<rparr>)
   \<and> unreleased (snd (metadata (fixed_env 207 []) demo_provider
                        (WaterButlerPath ''/docs/'' ''/'') world0)) = [0]
   \<and> unreleased (snd (validate_v1_path (fixed_env 207 []) demo_provider ''/docs/'' world0)) = []"
  by code_simp

subsection \<open>Two accounts on one backend\<close>

text \<open>
  C3. Two providers bound to different credentials never share their storage root,
  whatever their folders are; neither \<open>can_intra_copy\<close> nor \<open>can_intra_move\<close> holds between
  them, and no transfer between them is a native one.
\<close>

theorem different_accounts_never_intra:
  assumes "creds a \<noteq> creds b"
  shows "\<not> shares_storage_root a b \<and> \<not> can_intra_copy a b \<and> \<not> can_intra_move a b
         \<and> \<not> uses_intra operation a b
         \<and> (can_intra_copy a b \<longleftrightarrow> provider_eq a b)
         \<and> (can_intra_move a b \<longleftrightarrow> provider_eq a b)"
  using assms
  by (cases operation)
     (simp_all add: shares_storage_root_def can_intra_copy_def can_intra_move_def provider_eq_def)

theorem different_accounts_never_intra_witness:
  "creds demo_provider \<noteq> creds other_provider
   \<and> folder demo_provider = folder other_provider
   \<and> base_shares_storage_root demo_provider other_provider
   \<and> \<not> shares_storage_root demo_provider other_provider
   \<and> \<not> can_intra_copy demo_provider other_provider
   \<and> \<not> can_intra_move demo_provider other_provider
   \<and> \<not> uses_intra COPY demo_provider other_provider
   \<and> \<not> uses_intra MOVE demo_provider other_provider"
proof -
  have h: "creds demo_provider \<noteq> creds other_provider"
    by (simp add: demo_provider_def other_provider_def NextcloudProvider_def)
  have f: "folder demo_provider = folder other_provider"
          "base_shares_storage_root demo_provider other_provider"
    by (simp_all add: demo_provider_def other_provider_def NextcloudProvider_def
        base_shares_storage_root_def)
  show ?thesis
    using h f different_accounts_never_intra [OF h, of COPY]
      different_accounts_never_intra [OF h, of MOVE]
    by simp
qed

subsection \<open>Metadata of a file\<close>

text \<open>
  C10. For a file path whose \<^verbatim>\<open>PROPFIND\<close> is answered \<open>204\<close>, or \<open>207\<close> with a body in
  which the parser finds no entry, \<open>metadata\<close> raises \<open>IndexError\<close>, from the first
  element of the empty list of entries.
\<close>

theorem metadata_of_file_on_empty_listing:
  assumes "webdav_url self = Inr base"
    and "\<not> is_dir path"
    and "respond e (sent w) (dav_request ''PROPFIND'' (base @ full_path path)) = (st, b)"
    and "st = 204 \<or> (st = 207 \<and> parse_dav_response e (NAME self) b (folder self) False = Inr [])"
  shows "fst (metadata e self path w) = Inl IndexError"
  using assms
  by (auto simp: metadata_def metadata_file_def metadata_folder_def bind_op_def lift_op_def
      make_request_def read_content_def release_def return_op_def)

theorem metadata_of_file_on_empty_listing_witness:
  "webdav_url demo_provider = Inr ''h/remote.php/webdav/''
   \<and> \<not> is_dir (WaterButlerPath ''/docs/a.txt'' ''/'')
   \<and> respond (fixed_env 204 []) (sent world0)
        (dav_request ''PROPFIND''
           (''h/remote.php/webdav/'' @ full_path (WaterButlerPath ''/docs/a.txt'' ''/''))) = (204, [])
   \<and> fst (metadata (fixed_env 204 []) demo_provider (WaterButlerPath ''/docs/a.txt'' ''/'') world0)
       = Inl IndexError"
proof -
  have u: "webdav_url demo_provider = Inr ''h/remote.php/webdav/''"
    by code_simp
  have d: "\<not> is_dir (WaterButlerPath ''/docs/a.txt'' ''/'')"
    by code_simp
  have r: "respond (fixed_env 204 []) (sent world0)
        (dav_request ''PROPFIND''
           (''h/remote.php/webdav/'' @ full_path (WaterButlerPath ''/docs/a.txt'' ''/''))) = (204, [])"
    by (simp add: fixed_env_def)
  show ?thesis
    using u d r metadata_of_file_on_empty_listing [OF u d r] by simp
qed

subsection \<open>Upload\<close>

lemma first_Inr_iff: "first xs = Inr x \<longleftrightarrow> (\<exists>rest. xs = x # rest)"
  by (cases xs) auto

lemma make_request_Inr:
  "make_request e req expects throws w = (Inr resp, w1) \<Longrightarrow>
   resp = \<lparr>rid = opened w, status = fst (respond e (sent w) req),
            body = snd (respond e (sent w) req)\<rparr>
   \<and> fst (respond e (sent w) req) \<in> set expects
   \<and> w1 = w\<lparr>sent := sent w @ [req], opened := Suc (opened w)\<rparr>"
  by (auto simp: make_request_def Let_def split: prod.splits if_splits)

text \<open>
  C6. A successful upload returns the metadata fetched for the path after the \<^verbatim>\<open>PUT\<close>,
  one entry when the path is a file, and a flag. The server answers the \<^verbatim>\<open>PUT\<close> with
  \<open>201\<close> when it created the object and with \<open>204\<close> when it wrote over an existing one;
  the flag is true exactly on \<open>201\<close> and false exactly on \<open>204\<close>.
\<close>

theorem upload_created_flag:
  assumes "upload e self s path conflict w = (Inr (meta, created), w')"
  shows "\<exists>p w1 base st b.
      upload_target e self path conflict w = (Inr p, w1)
    \<and> webdav_url self = Inr base
    \<and> respond e (sent w1) (put_request base p s) = (st, b)
    \<and> (created \<longleftrightarrow> st = 201) \<and> (\<not> created \<longleftrightarrow> st = 204)
    \<and> metadata e self p
         (w1\<lparr>sent := sent w1 @ [put_request base p s], opened := Suc (opened w1),
             released := released w1 @ [opened w1]\<rparr>) = (Inr meta, w')
    \<and> (\<not> is_dir p \<longrightarrow> (\<exists>m. meta = Single m))"
proof -
  from assms obtain p w1 where t: "upload_target e self path conflict w = (Inr p, w1)"
    and rest1: "bind_op (lift_op (webdav_url self)) (\<lambda>base.
     bind_op (make_request e (put_request base p s) [201, 204] UploadError) (\<lambda>response.
     bind_op (release response) (\<lambda>_.
     bind_op (metadata e self p) (\<lambda>meta.
       return_op (meta, status response = 201))))) w1 = (Inr (meta, created), w')"
    unfolding upload_def bind_op_Inr_iff by blast
  from rest1 obtain base where u: "webdav_url self = Inr base"
    and rest2: "bind_op (make_request e (put_request base p s) [201, 204] UploadError) (\<lambda>response.
     bind_op (release response) (\<lambda>_.
     bind_op (metadata e self p) (\<lambda>meta.
       return_op (meta, status response = 201)))) w1 = (Inr (meta, created), w')"
    unfolding bind_op_Inr_iff by (auto simp: lift_op_def)
  from rest2 obtain resp w2 where
    mr: "make_request e (put_request base p s) [201, 204] UploadError w1 = (Inr resp, w2)"
    and rest3: "bind_op (release resp) (\<lambda>_.
     bind_op (metadata e self p) (\<lambda>meta.
       return_op (meta, status resp = 201))) w2 = (Inr (meta, created), w')"
    unfolding bind_op_Inr_iff by blast
  obtain st b where r: "respond e (sent w1) (put_request base p s) = (st, b)"
    by (cases "respond e (sent w1) (put_request base p s)")
  from make_request_Inr [OF mr] r have
    resp: "status resp = st" "rid resp = opened w1" and st: "st = 201 \<or> st = 204"
    and w2: "w2 = w1\<lparr>sent := sent w1 @ [put_request base p s], opened := Suc (opened w1)\<rparr>"
    by auto
  from rest3 have m: "metadata e self p (w2\<lparr>released := released w2 @ [rid resp]\<rparr>) = (Inr meta, w')"
    and c: "created = (status resp = 201)"
    by (auto simp: bind_op_Inr_iff release_def return_op_def)
  have single: "\<not> is_dir p \<longrightarrow> (\<exists>m. meta = Single m)"
    using m by (auto simp: metadata_def bind_op_Inr_iff return_op_def)
  show ?thesis
    using t u r c resp st m w2 single by auto
qed

theorem upload_created_flag_witness:
  "upload (demo_env demo_objects) demo_provider demo_stream
     (WaterButlerPath ''/docs/n.txt'' ''/'') ''replace'' world0
     = (Inr (Single (demo_entry ''/docs/n.txt''), True),
        \<lparr>sent = [put_request ''h/remote.php/webdav/'' (WaterButlerPath ''/docs/n.txt'' ''/'')
                   demo_stream,
                 dav_request ''PROPFIND'' ''h/remote.php/webdav//docs/n.txt''],
         opened = 2, drained = [1], released = [0, 1]\<rparr>)
   \<and> fst (respond (demo_env demo_objects) (sent world0)
          (put_request ''h/remote.php/webdav/'' (WaterButlerPath ''/docs/n.txt'' ''/'')
             demo_stream)) = 201
   \<and> upload (demo_env demo_objects) demo_provider demo_stream
       (WaterButlerPath ''/b.txt'' ''/'') ''replace'' world0
     = (Inr (Single (demo_entry ''/b.txt''), False),
        \<lparr>sent = [put_request ''h/remote.php/webdav/'' (WaterButlerPath ''/b.txt'' ''/'')
                   demo_stream,
                 dav_request ''PROPFIND'' ''h/remote.php/webdav//b.txt''],
         opened = 2, drained = [1], released = [0, 1]\<rparr>)
   \<and> fst (respond (demo_env demo_objects) (sent world0)
          (put_request ''h/remote.php/webdav/'' (WaterButlerPath ''/b.txt'' ''/'')
             demo_stream)) = 204"
proof -
  let ?e = "demo_env demo_objects"
  let ?n = "WaterButlerPath ''/docs/n.txt'' ''/''"
  let ?b = "WaterButlerPath ''/b.txt'' ''/''"
  have n: "upload ?e demo_provider demo_stream ?n ''replace'' world0
     = (Inr (Single (demo_entry ''/docs/n.txt''), True),
        \<lparr>sent = [put_request ''h/remote.php/webdav/'' ?n demo_stream,
                 dav_request ''PROPFIND'' ''h/remote.php/webdav//docs/n.txt''],
         opened = 2, drained = [1], released = [0, 1]\<rparr>)"
    by code_simp
  have b: "upload ?e demo_provider demo_stream ?b ''replace'' world0
     = (Inr (Single (demo_entry ''/b.txt''), False),
        \<lparr>sent = [put_request ''h/remote.php/webdav/'' ?b demo_stream,
                 dav_request ''PROPFIND'' ''h/remote.php/webdav//b.txt''],
         opened = 2, drained = [1], released = [0, 1]\<rparr>)"
    by code_simp
  have u: "webdav_url demo_provider = Inr ''h/remote.php/webdav/''"
    by code_simp
  have t: "upload_target ?e demo_provider p ''replace'' world0 = (Inr p, world0)" for p
    by (simp add: upload_target_def return_op_def)
  from upload_created_flag [OF n] t [of ?n] u
  have 1: "fst (respond ?e (sent world0) (put_request ''h/remote.php/webdav/'' ?n demo_stream)) = 201"
    by auto
  from upload_created_flag [OF b] t [of ?b] u
  have 2: "fst (respond ?e (sent world0) (put_request ''h/remote.php/webdav/'' ?b demo_stream)) = 204"
    by auto
  from n b 1 2 show ?thesis by simp
qed

subsection \<open>The counter of a renamed entry\<close>

declare show_nat.simps [simp del]
















subsection \<open>Copy and move inside one account\<close>

text \<open>
  C7. A successful \<open>intra_copy\<close> or \<open>intra_move\<close> to a folder returns an entry of the
  listing of the parent of the destination, fetched after the transfer: the first entry
  whose materialized path is the materialized path of the destination, with the
  metadata of the destination stored as its children. The identifier of the entry
  plays no part in the choice.
\<close>

theorem intra_transfer_returns_child_by_materialized_path:
  assumes "r = intra_copy e self d src dest w \<or> r = intra_move e self d src dest w"
    and "r = (Inr (meta, created), w')"
    and "is_folder dest"
  shows "\<exists>w1 w2 file_meta siblings m rest.
       metadata e self dest w1 = (Inr file_meta, w2)
     \<and> metadata e self (parent dest) w2 = (Inr (Listing siblings), w')
     \<and> filter (\<lambda>x. m_materialized_path x = materialized_path dest) siblings = m # rest
     \<and> meta = Single (set_children file_meta m)"
proof -
  from assms(1,2) obtain operation where
    op: "do_dav_move_copy e self src dest operation w = (Inr (meta, created), w')"
    by (auto simp: intra_copy_def intra_move_def)
  with assms(3) have "\<exists>w1 w2 w3 file_meta parent_meta ms m.
      metadata e self dest w1 = (Inr file_meta, w2)
    \<and> metadata e self (parent dest) w2 = (Inr parent_meta, w3)
    \<and> iterate parent_meta = Inr ms
    \<and> first (filter (\<lambda>x. m_materialized_path x = materialized_path dest) ms) = Inr m
    \<and> meta = Single (set_children file_meta m) \<and> w' = w3"
    by (simp add: do_dav_move_copy_def bind_op_Inr_iff lift_op_def return_op_def raise_op_def
        split: if_splits) blast
  then obtain w1 w2 w3 file_meta parent_meta ms m where
    fm: "metadata e self dest w1 = (Inr file_meta, w2)"
    and pm: "metadata e self (parent dest) w2 = (Inr parent_meta, w3)"
    and it: "iterate parent_meta = Inr ms"
    and f: "first (filter (\<lambda>x. m_materialized_path x = materialized_path dest) ms) = Inr m"
    and res: "meta = Single (set_children file_meta m)" "w' = w3"
    by blast
  from it have "parent_meta = Listing ms" by (cases parent_meta) auto
  with fm pm f res show ?thesis
    unfolding first_Inr_iff by blast
qed

theorem intra_transfer_returns_child_by_materialized_path_witness:
  "intra_copy (demo_env demo_objects) demo_provider demo_provider
     (WaterButlerPath ''/docs/'' ''/'') (WaterButlerPath ''/copy/'' ''/'') world0
     = (Inr (Single (set_children (Listing []) (demo_entry ''/copy/'')), True),
        \<lparr>sent = [move_copy_request ''COPY'' ''h/remote.php/webdav/''
                   (WaterButlerPath ''/docs/'' ''/'') (WaterButlerPath ''/copy/'' ''/''),
                 dav_request ''PROPFIND'' ''h/remote.php/webdav//copy/'',
                 dav_request ''PROPFIND'' ''h/remote.php/webdav//''],
         opened = 3, drained = [1, 2], released = [0, 1, 2]\<rparr>)
   \<and> is_folder (WaterButlerPath ''/copy/'' ''/'')
   \<and> (\<exists>w1 w2 file_meta siblings m rest.
         metadata (demo_env demo_objects) demo_provider (WaterButlerPath ''/copy/'' ''/'') w1
           = (Inr file_meta, w2)
       \<and> metadata (demo_env demo_objects) demo_provider
           (parent (WaterButlerPath ''/copy/'' ''/'')) w2
           = (Inr (Listing siblings),
              \<lparr>sent = [move_copy_request ''COPY'' ''h/remote.php/webdav/''
                         (WaterButlerPath ''/docs/'' ''/'') (WaterButlerPath ''/copy/'' ''/''),
                       dav_request ''PROPFIND'' ''h/remote.php/webdav//copy/'',
                       dav_request ''PROPFIND'' ''h/remote.php/webdav//''],
               opened = 3, drained = [1, 2], released = [0, 1, 2]\<rparr>)
       \<and> filter (\<lambda>x. m_materialized_path x
                       = materialized_path (WaterButlerPath ''/copy/'' ''/'')) siblings
           = m # rest
       \<and> Single (set_children (Listing []) (demo_entry ''/copy/''))
           = Single (set_children file_meta m))"
proof -
  have c: "intra_copy (demo_env demo_objects) demo_provider demo_provider
     (WaterButlerPath ''/docs/'' ''/'') (WaterButlerPath ''/copy/'' ''/'') world0
     = (Inr (Single (set_children (Listing []) (demo_entry ''/copy/'')), True),
        \<lparr>sent = [move_copy_request ''COPY'' ''h/remote.php/webdav/''
                   (WaterButlerPath ''/docs/'' ''/'') (WaterButlerPath ''/copy/'' ''/''),
                 dav_request ''PROPFIND'' ''h/remote.php/webdav//copy/'',
                 dav_request ''PROPFIND'' ''h/remote.php/webdav//''],
         opened = 3, drained = [1, 2], released = [0, 1, 2]\<rparr>)"
    by code_simp
  have f: "is_folder (WaterButlerPath ''/copy/'' ''/'')"
    by code_simp
  from intra_transfer_returns_child_by_materialized_path [OF disjI1 [OF refl] c f] c f
  show ?thesis by simp
qed

end
